theory Spec2Isabelle
  imports Main "HOL-Library.AList"
begin

section \<open>Python values and library functions\<close>

text \<open>
  Tool arguments and tool results are Python values. \<^verbatim>\<open>json.loads\<close> produces
  \<^verbatim>\<open>None\<close>, booleans, numbers, strings, lists and dictionaries with string keys; a
  handler may return any object, and \<open>NotJSON\<close> is an object of another type, carried
  by the name of its type. A float is carried by its literal; nothing here computes with
  it. A dictionary is an association list in insertion order.
\<close>

datatype json =
    JNull
  | JBool bool
  | JInt int
  | JFloat string
  | JStr string
  | JArr "json list"
  | JObj "(string \<times> json) list"
  | NotJSON string

text \<open>
  The dictionary \<^verbatim>\<open>execute_tool\<close> returns. The key \<^verbatim>\<open>success\<close> is always there;
  each of the other four keys is present in some of the three shapes only, so each is an
  option: \<open>None\<close> is "the key is not in the dictionary".
\<close>

record tool_result =
  tr_success :: bool
  tr_result :: "json option"
  tr_error :: "string option"
  tr_tool :: "string option"
  tr_parameters :: "json option"

text \<open>
  The outcome of \<^verbatim>\<open>json.loads(s)\<close> on a string: the value it returns, the
  JSONDecodeError it raises on text that is not JSON, or another exception, carried by its
  \<^verbatim>\<open>str\<close> (RecursionError on text nested too deeply, ValueError on a number with too
  many digits).
\<close>

datatype loads_result = Parsed json | JSONDecodeError | LoadsError string

text \<open>
  The functions of Python's library that the code calls are parameters of the model:
  \<^item> \<open>json_loads s\<close> is \<^verbatim>\<open>json.loads(s)\<close> on a string;
  \<^item> \<open>json_dumps r\<close> is \<^verbatim>\<open>json.dumps(r)\<close> on a tool result: \<open>Inr\<close> the text it
    returns, \<open>Inl\<close> the \<^verbatim>\<open>str\<close> of the exception it raises (TypeError on an object that
    is not JSON, RecursionError on a value nested too deeply);
  \<^item> \<open>repr_str s\<close> is \<^verbatim>\<open>repr(s)\<close> on a string, which \<^verbatim>\<open>str\<close> of a list applies to each
    element.
\<close>

record pylib =
  json_loads :: "string \<Rightarrow> loads_result"
  json_dumps :: "tool_result \<Rightarrow> string + string"
  repr_str :: "string \<Rightarrow> string"

definition sq :: string where
  "sq = [CHR 0x27]"

text \<open>
  The \<^verbatim>\<open>str\<close> of the AttributeError Python raises for \<^verbatim>\<open>x.attr\<close> when the type of
  \<^verbatim>\<open>x\<close> has no such attribute.
\<close>

definition no_attribute :: "string \<Rightarrow> string \<Rightarrow> string" where
  "no_attribute type_name attr =
     sq @ type_name @ sq @ '' object has no attribute '' @ sq @ attr @ sq"

fun join_comma :: "string list \<Rightarrow> string" where
  "join_comma [] = []"
| "join_comma [x] = x"
| "join_comma (x # y # ys) = x @ '', '' @ join_comma (y # ys)"

definition str_list :: "pylib \<Rightarrow> string list \<Rightarrow> string" where
  "str_list lib xs = ''['' @ join_comma (map (repr_str lib) xs) @ '']''"

section \<open>The tool registry (tools.py)\<close>

text \<open>
  The value under the key \<^verbatim>\<open>parameters\<close> of an entry: a dictionary from the names of
  the parameters to their descriptions, which are strings, or a value of another type
  (\<^verbatim>\<open>None\<close>, whose type is \<^verbatim>\<open>NoneType\<close>), carried by the name of its type. Such a
  value has no \<^verbatim>\<open>items\<close> attribute.
\<close>

datatype parameters_value = NotMapping string | Mapping "(string \<times> string) list"

text \<open>
  An entry of \<^verbatim>\<open>ToolRegistry.tools\<close> is a dictionary with the keys \<^verbatim>\<open>function\<close>,
  \<^verbatim>\<open>description\<close> and \<^verbatim>\<open>parameters\<close>; a key may be missing (the registry of the test
  suite has no \<^verbatim>\<open>function\<close>), and reading a missing key raises KeyError.
  \<open>ti_function\<close> is the call \<^verbatim>\<open>function(**parameters)\<close> as a whole: \<open>Inr v\<close> when it
  returns \<open>v\<close>, \<open>Inl msg\<close> when it raises an \<^verbatim>\<open>Exception\<close> whose \<^verbatim>\<open>str\<close> is \<open>msg\<close>
  (the handler's own, or the TypeError of unpacking arguments that do not fit). The value
  under \<^verbatim>\<open>description\<close> is passed on as it is; it is a string.
\<close>

record tool_info =
  ti_function :: "(json \<Rightarrow> string + json) option"
  ti_description :: "string option"
  ti_parameters :: "parameters_value option"

type_synonym tools = "(string \<times> tool_info) list"

text \<open>
  Lines 13 to 39: the registry \<^verbatim>\<open>ToolRegistry.__init__\<close> builds. Its three handlers
  \<^verbatim>\<open>explore_csv\<close>, \<^verbatim>\<open>extract_csv_data\<close> and \<^verbatim>\<open>create_chart\<close> read files and
  compute with pandas; here they are parameters.
\<close>

definition ToolRegistry_tools ::
  "(json \<Rightarrow> string + json) \<Rightarrow> (json \<Rightarrow> string + json) \<Rightarrow> (json \<Rightarrow> string + json) \<Rightarrow> tools" where
  \<open>ToolRegistry_tools explore_csv extract_csv_data create_chart =
     [(''explore_csv'',
        \<lparr>ti_function = Some explore_csv,
         ti_description = Some ''Explore the structure and content of a CSV file, including data types, unique values, and example data. Use this first to understand what data is available.'',
         ti_parameters = Some (Mapping
           [(''csv_name'', ''Name of the CSV file (e.g., 'actuals.csv', 'budget.csv', 'fx.csv', 'cash.csv')'')])\<rparr>),
      (''extract_csv_data'',
        \<lparr>ti_function = Some extract_csv_data,
         ti_description = Some ''Extract rows from a CSV file based on specified filter conditions. Returns filtered data with a sample preview. The filters parameter must be a JSON string.'',
         ti_parameters = Some (Mapping
           [(''csv_name'', ''CSV file to load from (e.g., 'actuals.csv', 'budget.csv')''),
            (''filters'', ''JSON string of column-value filters to apply. Example: '{"month": "2023-01", "account_category": "Revenue"}' or '{"entity": ["Entity A", "Entity B"]}' for multiple values'')])\<rparr>),
      (''create_chart'',
        \<lparr>ti_function = Some create_chart,
         ti_description = Some ''Prepare chart configuration (bar, line, pie, area, or scatter) from data. Returns chart config for visualization.'',
         ti_parameters = Some (Mapping
           [(''data'', ''JSON string containing the dataframe data to visualize''),
            (''chart_type'', ''Type of chart: 'bar', 'line', 'pie', 'area', or 'scatter'' @ sq),
            (''x_column'', ''Column name of dataframe data to use for the X-axis or categories''),
            (''y_column'', ''Column name of dataframe data to use for the Y-axis or values'')])\<rparr>)]\<close>

text \<open>
  The body of the \<^verbatim>\<open>try\<close> of \<^verbatim>\<open>execute_tool\<close>, line 225:
  \<^verbatim>\<open>self.tools[tool_name]["function"](**parameters)\<close>. \<^verbatim>\<open>str\<close> of a KeyError is the
  \<^verbatim>\<open>repr\<close> of the key.
\<close>

definition call_function :: "pylib \<Rightarrow> tool_info \<Rightarrow> json \<Rightarrow> string + json" where
  "call_function lib info parameters =
     (case ti_function info of
        None \<Rightarrow> Inl (repr_str lib ''function'')
      | Some f \<Rightarrow> f parameters)"

definition execute_tool :: "pylib \<Rightarrow> tools \<Rightarrow> string \<Rightarrow> json \<Rightarrow> tool_result" where
  "execute_tool lib tls tool_name parameters =
     (case map_of tls tool_name of
        None \<Rightarrow>
          \<lparr>tr_success = False,
           tr_result = None,
           tr_error = Some (''Tool '' @ sq @ tool_name @ sq @ '' not found. Available tools: ''
                            @ str_list lib (map fst tls)),
           tr_tool = None,
           tr_parameters = None\<rparr>
      | Some info \<Rightarrow>
          (case call_function lib info parameters of
             Inr result \<Rightarrow>
               \<lparr>tr_success = True,
                tr_result = Some result,
                tr_error = None,
                tr_tool = None,
                tr_parameters = None\<rparr>
           | Inl e \<Rightarrow>
               \<lparr>tr_success = False,
                tr_result = None,
                tr_error = Some e,
                tr_tool = Some tool_name,
                tr_parameters = Some parameters\<rparr>))"

section \<open>The agent (main_agent.py)\<close>

subsection \<open>Messages, model responses and results\<close>

text \<open>
  A tool call of a model response: \<^verbatim>\<open>tool_call.id\<close>, \<^verbatim>\<open>tool_call.function.name\<close> and
  \<^verbatim>\<open>tool_call.function.arguments\<close>. A response message has a \<^verbatim>\<open>content\<close> and a
  \<^verbatim>\<open>tool_calls\<close> attribute, each of which may be \<^verbatim>\<open>None\<close>.
\<close>

record tool_call =
  tc_id :: string
  tc_name :: string
  tc_arguments :: string

record response =
  content :: "string option"
  tool_calls :: "tool_call list option"

text \<open>
  The conversation: the two dictionaries of lines 101 to 104, the response objects of
  line 133, and the dictionaries of lines 177 to 182 with \<^verbatim>\<open>tool_call_id\<close>,
  \<^verbatim>\<open>name\<close> and \<^verbatim>\<open>content\<close>.
\<close>

datatype message =
    SystemMsg string
  | UserMsg string
  | AssistantMsg response
  | ToolMsg string string string

record log_entry =
  le_tool :: string
  le_arguments :: json
  le_result :: tool_result

text \<open>
  The dictionary \<^verbatim>\<open>process_query\<close> returns. \<open>answer\<close> is a Python string or \<^verbatim>\<open>None\<close>
  (the response's \<^verbatim>\<open>content\<close>). \<open>chart_data\<close> is \<open>None\<close> when the dictionary has no
  key \<^verbatim>\<open>chart_data\<close>, and \<open>Some v\<close> when it has the key with the value \<open>v\<close>
  (\<open>Some JNull\<close> is the key with the value \<^verbatim>\<open>None\<close>).
\<close>

record agent_result =
  answer :: "string option"
  chart_data :: "json option"
  execution_log :: "log_entry list"
  success :: bool
  iterations :: nat

subsection \<open>The schema of the tools\<close>

record param_schema =
  ps_type :: string
  ps_description :: string

record groq_parameters =
  gp_type :: string
  gp_properties :: "(string \<times> param_schema) list"
  gp_required :: "string list"

record groq_function =
  gf_name :: string
  gf_description :: string
  gf_parameters :: groq_parameters

record groq_tool =
  gt_type :: string
  gt_function :: groq_function

text \<open>
  The exceptions that leave \<^verbatim>\<open>__init__\<close>, \<^verbatim>\<open>get_groq_tools\<close> and
  \<^verbatim>\<open>process_query\<close>: KeyError carries the key, AttributeError its \<^verbatim>\<open>str\<close>, and
  ClientError is what the constructor of the client raises.
\<close>

datatype py_error = KeyError string | AttributeError string | ClientError string

text \<open>Lines 29 to 50: the schema of one parameter.\<close>

definition param_schema_of :: "string \<Rightarrow> string \<Rightarrow> param_schema" where
  "param_schema_of param_name param_desc =
     (if param_name = ''filters'' then
        \<lparr>ps_type = ''string'', ps_description = param_desc @ '' Provide as JSON string.''\<rparr>
      else if param_name \<in> set [''group_by'', ''columns'', ''on_columns''] then
        \<lparr>ps_type = ''string'', ps_description = param_desc @ '' Provide as JSON array string.''\<rparr>
      else if param_name = ''data'' then
        \<lparr>ps_type = ''string'', ps_description = param_desc @ '' Provide as JSON string.''\<rparr>
      else
        \<lparr>ps_type = ''string'', ps_description = param_desc\<rparr>)"

text \<open>
  Lines 27 to 53: the loop over the parameters, with the dictionary \<^verbatim>\<open>properties\<close>
  (assignment to a key keeps the key's place, or adds it at the end) and the list
  \<^verbatim>\<open>required\<close>.
\<close>

fun parameters_loop ::
  "(string \<times> string) list \<Rightarrow> (string \<times> param_schema) list \<Rightarrow> string list
     \<Rightarrow> (string \<times> param_schema) list \<times> string list" where
  "parameters_loop [] properties required = (properties, required)"
| "parameters_loop ((param_name, param_desc) # rest) properties required =
     parameters_loop rest
       (AList.update param_name (param_schema_of param_name param_desc) properties)
       (required @ [param_name])"

text \<open>
  Lines 22 to 67: the loop over the tools. \<^verbatim>\<open>tool_info['parameters'].items()\<close> is
  read first: KeyError when the key is missing, AttributeError when the value is not a
  dictionary. \<^verbatim>\<open>tool_info['description']\<close> is read after the parameters' loop:
  KeyError when the key is missing.
\<close>

fun tools_loop :: "tools \<Rightarrow> groq_tool list \<Rightarrow> py_error + groq_tool list" where
  "tools_loop [] groq_tools = Inr groq_tools"
| "tools_loop ((tool_name, tool_info) # rest) groq_tools =
     (case ti_parameters tool_info of
        None \<Rightarrow> Inl (KeyError ''parameters'')
      | Some (NotMapping type_name) \<Rightarrow> Inl (AttributeError (no_attribute type_name ''items''))
      | Some (Mapping params) \<Rightarrow>
          (case parameters_loop params [] [] of
             (properties, required) \<Rightarrow>
               (case ti_description tool_info of
                  None \<Rightarrow> Inl (KeyError ''description'')
                | Some description \<Rightarrow>
                    tools_loop rest
                      (groq_tools @
                        [\<lparr>gt_type = ''function'',
                          gt_function =
                            \<lparr>gf_name = tool_name,
                             gf_description = description,
                             gf_parameters =
                               \<lparr>gp_type = ''object'',
                                gp_properties = properties,
                                gp_required = required\<rparr>\<rparr>\<rparr>]))))"

subsection \<open>The agent\<close>

text \<open>
  The model behind \<^verbatim>\<open>self.client.chat.completions.create\<close> is outside the program. A
  client is any function from the number of the call, the model's name, the tools' schema
  and the conversation to the outcome of lines 121 to 130: \<open>Inr r\<close> is the response message
  \<^verbatim>\<open>chat_completion.choices[0].message\<close>, \<open>Inl msg\<close> is an exception whose \<^verbatim>\<open>str\<close>
  is \<open>msg\<close>.
\<close>

type_synonym client = "nat \<Rightarrow> string \<Rightarrow> groq_tool list \<Rightarrow> message list \<Rightarrow> string + response"

text \<open>
  \<open>tool_registry\<close> is \<open>None\<close> when the attribute is \<^verbatim>\<open>None\<close>, the default of the
  constructor, and \<open>Some\<close> of the \<^verbatim>\<open>tools\<close> dictionary of the registry object
  otherwise.
\<close>

record main_agent =
  model :: string
  tool_registry :: "tools option"
  conversation_history :: "message list"
  client :: client

text \<open>
  \<^verbatim>\<open>__init__\<close>, lines 12 to 16. \<open>groq\<close> is the outcome of
  \<^verbatim>\<open>Groq(api_key=os.getenv("GROQ_API_KEY"))\<close>, which reads the process environment: a
  client, or the error the constructor of the client raises. The registry is stored as
  it is given: nothing of it is read.
\<close>

definition MainAgent_init ::
  "py_error + client \<Rightarrow> string \<Rightarrow> tools option \<Rightarrow> py_error + main_agent" where
  "MainAgent_init groq mdl registry =
     (case groq of
        Inl e \<Rightarrow> Inl e
      | Inr c \<Rightarrow>
          Inr \<lparr>model = mdl, tool_registry = registry, conversation_history = [], client = c\<rparr>)"

text \<open>
  \<^verbatim>\<open>get_groq_tools\<close>: line 22 reads \<^verbatim>\<open>self.tool_registry.tools\<close>, which raises
  AttributeError when the registry is \<^verbatim>\<open>None\<close>.
\<close>

definition get_groq_tools :: "main_agent \<Rightarrow> py_error + groq_tool list" where
  "get_groq_tools self =
     (case tool_registry self of
        None \<Rightarrow> Inl (AttributeError (no_attribute ''NoneType'' ''tools''))
      | Some tls \<Rightarrow> tools_loop tls [])"

subsection \<open>The loop of process_query\<close>

definition max_iterations :: nat where
  "max_iterations = 15"

text \<open>
  \<^verbatim>\<open>response_message.tool_calls\<close> is \<^verbatim>\<open>None\<close> or a list. Line 136 takes its truth
  value, which is false for \<^verbatim>\<open>None\<close> and for the empty list; line 140 iterates over it
  when it is true.
\<close>

definition requested_calls :: "response \<Rightarrow> tool_call list" where
  "requested_calls response_message =
     (case tool_calls response_message of None \<Rightarrow> [] | Some tcs \<Rightarrow> tcs)"

definition has_tool_calls :: "response \<Rightarrow> bool" where
  "has_tool_calls response_message = (requested_calls response_message \<noteq> [])"

text \<open>
  Lines 149 to 153: the arguments of a tool call. When \<^verbatim>\<open>json.loads\<close> raises
  JSONDecodeError the arguments are the empty dictionary. Line 151 catches no other
  exception: \<open>Inl\<close> is an exception of \<^verbatim>\<open>json.loads\<close> that leaves these lines.
\<close>

definition parse_arguments :: "pylib \<Rightarrow> string \<Rightarrow> string + json" where
  "parse_arguments lib tool_args_str =
     (case json_loads lib tool_args_str of
        Parsed v \<Rightarrow> Inr v
      | JSONDecodeError \<Rightarrow> Inr (JObj [])
      | LoadsError e \<Rightarrow> Inl e)"

text \<open>
  Lines 140 to 182: the loop over the tool calls of one response, on the conversation and
  the execution log. It ends when the calls are used up, or when a statement raises: the
  exception then leaves the loop with the log as it is at that point. For one call, in
  the order of the source: \<^verbatim>\<open>json.loads\<close> may raise (line 150);
  \<^verbatim>\<open>self.tool_registry.execute_tool\<close> raises AttributeError when the registry is
  \<^verbatim>\<open>None\<close> and returns a dictionary otherwise (line 156); the entry is appended to the
  log (line 170); \<^verbatim>\<open>json.dumps\<close> may raise (line 181); the tool message is appended
  (line 177). The \<^verbatim>\<open>print\<close> calls write to the standard output only and are left
  out.
\<close>

datatype calls_outcome =
    Raised string "log_entry list"
  | Completed "message list" "log_entry list"

fun tool_calls_loop ::
  "pylib \<Rightarrow> tools option \<Rightarrow> tool_call list \<Rightarrow> message list \<Rightarrow> log_entry list
     \<Rightarrow> calls_outcome" where
  "tool_calls_loop lib registry [] messages log = Completed messages log"
| "tool_calls_loop lib registry (tc # rest) messages log =
     (let tool_name = tc_name tc;
          tool_args_str = tc_arguments tc
      in case parse_arguments lib tool_args_str of
           Inl e \<Rightarrow> Raised e log
         | Inr tool_args \<Rightarrow>
             (case registry of
                None \<Rightarrow> Raised (no_attribute ''NoneType'' ''execute_tool'') log
              | Some tls \<Rightarrow>
                  (let tool_result = execute_tool lib tls tool_name tool_args;
                       log' = log @ [\<lparr>le_tool = tool_name, le_arguments = tool_args,
                                      le_result = tool_result\<rparr>]
                   in case json_dumps lib tool_result of
                        Inl e \<Rightarrow> Raised e log'
                      | Inr text \<Rightarrow>
                          tool_calls_loop lib registry rest
                            (messages @ [ToolMsg (tc_id tc) tool_name text]) log')))"

text \<open>
  Lines 189 to 192: the scan of the execution log for the chart. \<^verbatim>\<open>.get('result', {})\<close>
  is the value under \<^verbatim>\<open>result\<close>, or the empty dictionary when the key is missing.
\<close>

definition get_result :: "tool_result \<Rightarrow> json" where
  "get_result r = (case tr_result r of Some v \<Rightarrow> v | None \<Rightarrow> JObj [])"

fun chart_scan :: "log_entry list \<Rightarrow> json \<Rightarrow> json" where
  "chart_scan [] chart = chart"
| "chart_scan (e # rest) chart =
     chart_scan rest
       (if le_tool e = ''create_chart'' \<and> tr_success (le_result e)
        then get_result (le_result e) else chart)"

text \<open>
  Lines 208 to 215: the dictionary the \<^verbatim>\<open>except Exception\<close> of the loop returns, for
  the \<^verbatim>\<open>str\<close> of the exception, the log and the number of the iteration.
\<close>

definition failed :: "string \<Rightarrow> log_entry list \<Rightarrow> nat \<Rightarrow> agent_result" where
  "failed e log iteration =
     \<lparr>answer = Some (''Error occurred during processing: '' @ e),
      chart_data = None,
      execution_log = log,
      success = False,
      iterations = iteration\<rparr>"

text \<open>
  The body of the \<^verbatim>\<open>while\<close> loop after \<^verbatim>\<open>iteration += 1\<close>, lines 119 to 215: it
  either returns the result of \<^verbatim>\<open>process_query\<close>, or falls through to the head of the
  loop with the conversation and the log it has extended. The \<^verbatim>\<open>try\<close> spans the model
  call and the processing of the response, so an exception of either returns the
  dictionary of the \<^verbatim>\<open>except\<close>.
\<close>

datatype outcome = Return agent_result | Continue "message list" "log_entry list"

definition loop_body ::
  "pylib \<Rightarrow> main_agent \<Rightarrow> groq_tool list \<Rightarrow> nat \<Rightarrow> message list \<Rightarrow> log_entry list \<Rightarrow> outcome" where
  "loop_body lib self tls iteration messages log =
     (case client self iteration (model self) tls messages of
        Inl e \<Rightarrow> Return (failed e log iteration)
      | Inr response_message \<Rightarrow>
          (let messages' = messages @ [AssistantMsg response_message] in
           if has_tool_calls response_message then
             (case tool_calls_loop lib (tool_registry self)
                     (requested_calls response_message) messages' log of
                Raised e log' \<Rightarrow> Return (failed e log' iteration)
              | Completed messages'' log' \<Rightarrow> Continue messages'' log')
           else
             Return \<lparr>answer = content response_message,
                     chart_data = Some (chart_scan log JNull),
                     execution_log = log,
                     success = True,
                     iterations = iteration\<rparr>))"

text \<open>Lines 113 to 222: the \<^verbatim>\<open>while\<close> loop and the return after it.\<close>

function while_loop ::
  "pylib \<Rightarrow> main_agent \<Rightarrow> groq_tool list \<Rightarrow> nat \<Rightarrow> message list \<Rightarrow> log_entry list \<Rightarrow> agent_result" where
  "while_loop lib self tls iteration messages log =
     (if iteration < max_iterations then
        (case loop_body lib self tls (iteration + 1) messages log of
           Return r \<Rightarrow> r
         | Continue messages' log' \<Rightarrow> while_loop lib self tls (iteration + 1) messages' log')
      else
        \<lparr>answer = Some ''Could not complete analysis within iteration limit'',
         chart_data = None,
         execution_log = log,
         success = False,
         iterations = max_iterations\<rparr>)"
  by pat_completeness auto
termination
  by (relation "measure (\<lambda>(lib, self, tls, iteration, messages, log). max_iterations - iteration)")
     auto

text \<open>
  \<^verbatim>\<open>process_query\<close>. \<open>system_prompt\<close> is the text of lines 74 to 99 with the current
  date and time filled in. The schema is built at line 107, before the loop and outside
  its \<^verbatim>\<open>try\<close>: an error of \<open>get_groq_tools\<close> is the error of \<open>process_query\<close>.
\<close>

definition process_query :: "pylib \<Rightarrow> string \<Rightarrow> main_agent \<Rightarrow> string \<Rightarrow> py_error + agent_result" where
  "process_query lib system_prompt self user_query =
     (let messages = [SystemMsg system_prompt, UserMsg user_query] in
      case get_groq_tools self of
        Inl e \<Rightarrow> Inl e
      | Inr tls \<Rightarrow> Inr (while_loop lib self tls 0 messages []))"

section \<open>The specification's words\<close>

text \<open>
  The definitions of this section are not taken from the code: they say what the
  specification says, and the theorems compare them with the definitions above.
\<close>

subsection \<open>One log entry and one tool message for a tool call\<close>

text \<open>
  The argument map execution goes on with: the parsed arguments, or the empty map when
  they do not parse. The execution-log entry of a tool call: the tool's name, that
  argument map, and the result of the registry on them. The tool-result message of a tool
  call: the call's id, the tool's name, and the serialised result (the empty text where
  serialising raises; the theorems use the message only where it does not).
\<close>

definition arguments_of :: "pylib \<Rightarrow> tool_call \<Rightarrow> json" where
  "arguments_of lib tc =
     (case json_loads lib (tc_arguments tc) of Parsed v \<Rightarrow> v | _ \<Rightarrow> JObj [])"

definition entry_of :: "pylib \<Rightarrow> tools \<Rightarrow> tool_call \<Rightarrow> log_entry" where
  "entry_of lib registry tc =
     \<lparr>le_tool = tc_name tc,
      le_arguments = arguments_of lib tc,
      le_result = execute_tool lib registry (tc_name tc) (arguments_of lib tc)\<rparr>"

definition tool_message_of :: "pylib \<Rightarrow> tools \<Rightarrow> tool_call \<Rightarrow> message" where
  "tool_message_of lib registry tc =
     ToolMsg (tc_id tc) (tc_name tc)
       (case json_dumps lib (execute_tool lib registry (tc_name tc) (arguments_of lib tc)) of
          Inr text \<Rightarrow> text
        | Inl e \<Rightarrow> [])"

text \<open>
  Processing a tool call raises nothing: \<^verbatim>\<open>json.loads\<close> returns a value or raises
  JSONDecodeError on its arguments, and \<^verbatim>\<open>json.dumps\<close> returns a text on its result.
\<close>

definition loads_raises :: "pylib \<Rightarrow> tool_call \<Rightarrow> bool" where
  "loads_raises lib tc =
     (case json_loads lib (tc_arguments tc) of LoadsError e \<Rightarrow> True | _ \<Rightarrow> False)"

definition dumps_raises :: "pylib \<Rightarrow> tools \<Rightarrow> tool_call \<Rightarrow> bool" where
  "dumps_raises lib registry tc =
     (case json_dumps lib (execute_tool lib registry (tc_name tc) (arguments_of lib tc)) of
        Inl e \<Rightarrow> True
      | Inr text \<Rightarrow> False)"

definition raises_nothing :: "pylib \<Rightarrow> tools \<Rightarrow> tool_call \<Rightarrow> bool" where
  "raises_nothing lib registry tc = (\<not> loads_raises lib tc \<and> \<not> dumps_raises lib registry tc)"

subsection \<open>The most recent successful chart\<close>

text \<open>
  The result of the latest entry of the log whose tool is \<^verbatim>\<open>create_chart\<close> and whose
  result is successful; \<^verbatim>\<open>None\<close> when the log has no such entry.
\<close>

definition latest_successful_chart :: "log_entry list \<Rightarrow> json" where
  "latest_successful_chart log =
     (case List.find (\<lambda>e. le_tool e = ''create_chart'' \<and> tr_success (le_result e)) (rev log) of
        None \<Rightarrow> JNull
      | Some e \<Rightarrow> get_result (le_result e))"

subsection \<open>The schema a registry declares\<close>

text \<open>
  The suffix of a structured parameter's description: the filter set and the data payload
  are asked for as a JSON string, the lists of column names as a JSON array string. Every
  parameter is a property of type \<^verbatim>\<open>string\<close>, and every parameter is required.
  An entry of the registry is well formed when it has its description and its parameters;
  the parameters are a dictionary, so each name occurs once.
\<close>

definition json_suffix :: "string \<Rightarrow> string" where
  "json_suffix p =
     (if p = ''filters'' \<or> p = ''data'' then '' Provide as JSON string.''
      else if p = ''group_by'' \<or> p = ''columns'' \<or> p = ''on_columns''
        then '' Provide as JSON array string.''
      else [])"

definition declared_property :: "string \<times> string \<Rightarrow> string \<times> param_schema" where
  "declared_property pd =
     (fst pd, \<lparr>ps_type = ''string'', ps_description = snd pd @ json_suffix (fst pd)\<rparr>)"

definition declared_schema :: "string \<Rightarrow> string \<Rightarrow> (string \<times> string) list \<Rightarrow> groq_tool" where
  "declared_schema name description params =
     \<lparr>gt_type = ''function'',
      gt_function =
        \<lparr>gf_name = name,
         gf_description = description,
         gf_parameters =
           \<lparr>gp_type = ''object'',
            gp_properties = map declared_property params,
            gp_required = map fst params\<rparr>\<rparr>\<rparr>"

definition well_formed_entry :: "string \<times> tool_info \<Rightarrow> bool" where
  "well_formed_entry entry =
     (case ti_parameters (snd entry) of
        Some (Mapping params) \<Rightarrow> distinct (map fst params) \<and> ti_description (snd entry) \<noteq> None
      | _ \<Rightarrow> False)"

definition emitted_for :: "string \<times> tool_info \<Rightarrow> groq_tool \<Rightarrow> bool" where
  "emitted_for entry g =
     (case ti_parameters (snd entry) of
        Some (Mapping params) \<Rightarrow>
          (case ti_description (snd entry) of
             None \<Rightarrow> False
           | Some description \<Rightarrow> g = declared_schema (fst entry) description params)
      | _ \<Rightarrow> False)"

subsection \<open>The error of a malformed entry\<close>

text \<open>
  What is wrong with an entry of the registry, if anything: its \<^verbatim>\<open>parameters\<close> key is
  missing (KeyError of that key), or the value under it is not a dictionary
  (AttributeError: the value has no \<^verbatim>\<open>items\<close>), or, with the parameters in order, its
  \<^verbatim>\<open>description\<close> key is missing (KeyError of that key).
\<close>

definition entry_error :: "tool_info \<Rightarrow> py_error option" where
  "entry_error info =
     (case ti_parameters info of
        None \<Rightarrow> Some (KeyError ''parameters'')
      | Some (NotMapping type_name) \<Rightarrow> Some (AttributeError (no_attribute type_name ''items''))
      | Some (Mapping params) \<Rightarrow>
          (case ti_description info of
             None \<Rightarrow> Some (KeyError ''description'')
           | Some description \<Rightarrow> None))"

section \<open>Concrete inputs\<close>

text \<open>
  A library whose \<^verbatim>\<open>json.loads\<close> knows two JSON texts and raises RecursionError on a
  thousand opening brackets, and whose \<^verbatim>\<open>json.dumps\<close> raises TypeError on a result that
  is not JSON; handlers that return their arguments, raise, or return a set; the registry
  of the test suite with these handlers; clients that replay the scenarios of the
  specification; and an agent on the registry of \<^verbatim>\<open>ToolRegistry.__init__\<close>.
\<close>

definition args_actuals :: string where
  \<open>args_actuals = ''{"csv_name": "actuals.csv"}''\<close>

definition deep_brackets :: string where
  "deep_brackets = replicate 1000 CHR ''[''"

definition lib0 :: pylib where
  "lib0 =
     \<lparr>json_loads =
        (\<lambda>s. if s = ''{}'' then Parsed (JObj [])
             else if s = args_actuals then Parsed (JObj [(''csv_name'', JStr ''actuals.csv'')])
             else if s = deep_brackets then
               LoadsError ''maximum recursion depth exceeded while decoding a JSON array from a unicode string''
             else JSONDecodeError),
      json_dumps =
        (\<lambda>r. case tr_result r of
                Some (NotJSON type_name) \<Rightarrow>
                  Inl (''Object of type '' @ type_name @ '' is not JSON serializable'')
              | _ \<Rightarrow> Inr (if tr_success r then ''ok'' else ''failed'')),
      repr_str = (\<lambda>s. sq @ s @ sq)\<rparr>"

definition echo_handler :: "json \<Rightarrow> string + json" where
  "echo_handler parameters =
     (case parameters of
        JObj kvs \<Rightarrow> Inr (JObj kvs)
      | _ \<Rightarrow> Inl ''argument after ** must be a mapping'')"

definition failing_handler :: "json \<Rightarrow> string + json" where
  "failing_handler parameters = Inl ''CSV file not found: nonexistent.csv''"


definition registry0 :: tools where
  "registry0 =
     [(''explore_csv'',
        \<lparr>ti_function = Some echo_handler,
         ti_description = Some ''Explore CSV file structure and content'',
         ti_parameters = Some (Mapping [(''csv_name'', ''Name of the CSV file to explore''),
                                        (''columns'', ''Specific columns to analyze'')])\<rparr>),
      (''extract_csv_data'',
        \<lparr>ti_function = Some failing_handler,
         ti_description = Some ''Extract filtered data from CSV'',
         ti_parameters = Some (Mapping [(''csv_name'', ''Name of the CSV file''),
                                        (''filters'', ''Filters to apply as JSON object'')])\<rparr>),
      (''create_chart'',
        \<lparr>ti_function = Some echo_handler,
         ti_description = Some ''Create a chart from data'',
         ti_parameters = Some (Mapping [(''data'', ''Data to visualize as JSON''),
                                        (''chart_type'', ''Type of chart (bar, line, etc.)'')])\<rparr>)]"


definition registry_no_description :: tools where
  "registry_no_description =
     [(''explore_csv'',
        \<lparr>ti_function = Some echo_handler,
         ti_description = None,
         ti_parameters = Some (Mapping [(''csv_name'', ''Name of the CSV file to explore'')])\<rparr>)]"

definition registry_parameters_none :: tools where
  "registry_parameters_none =
     [(''explore_csv'',
        \<lparr>ti_function = Some echo_handler,
         ti_description = Some ''Explore CSV file structure and content'',
         ti_parameters = Some (Mapping [(''csv_name'', ''Name of the CSV file to explore'')])\<rparr>),
      (''create_chart'',
        \<lparr>ti_function = Some echo_handler,
         ti_description = None,
         ti_parameters = Some (NotMapping ''NoneType'')\<rparr>)]"

definition tc_explore :: tool_call where
  "tc_explore = \<lparr>tc_id = ''call_123'', tc_name = ''explore_csv'', tc_arguments = args_actuals\<rparr>"

definition tc_bad :: tool_call where
  "tc_bad = \<lparr>tc_id = ''call_789'', tc_name = ''explore_csv'', tc_arguments = ''not valid json {{''\<rparr>"


definition tc_chart :: tool_call where
  "tc_chart = \<lparr>tc_id = ''call_c1'', tc_name = ''create_chart'', tc_arguments = ''{}''\<rparr>"

definition tc_chart2 :: tool_call where
  "tc_chart2 = \<lparr>tc_id = ''call_c2'', tc_name = ''create_chart'', tc_arguments = args_actuals\<rparr>"

definition client_A :: client where
  "client_A i mdl tls messages =
     (if i = 1 then Inr \<lparr>content = None, tool_calls = Some [tc_explore]\<rparr>
      else Inr \<lparr>content = Some ''Revenue was $500,000.'', tool_calls = None\<rparr>)"

definition client_B :: client where
  "client_B i mdl tls messages = Inl ''API connection timeout''"





definition client_chart_then_error :: client where
  "client_chart_then_error i mdl tls messages =
     (if i = 1 then Inr \<lparr>content = None, tool_calls = Some [tc_chart]\<rparr>
      else Inl ''rate limit exceeded'')"

definition client_two_charts :: client where
  "client_two_charts i mdl tls messages =
     (if i = 1 then Inr \<lparr>content = None, tool_calls = Some [tc_chart]\<rparr>
      else if i = 2 then Inr \<lparr>content = None, tool_calls = Some [tc_chart2, tc_explore]\<rparr>
      else Inr \<lparr>content = Some ''Here is the chart.'', tool_calls = Some []\<rparr>)"

definition agent_of :: "client \<Rightarrow> main_agent" where
  "agent_of c = \<lparr>model = ''openai/gpt-oss-20b'', tool_registry = Some registry0,
                 conversation_history = [], client = c\<rparr>"

definition agent_on :: "tools option \<Rightarrow> client \<Rightarrow> main_agent" where
  "agent_on registry c = \<lparr>model = ''openai/gpt-oss-20b'', tool_registry = registry,
                           conversation_history = [], client = c\<rparr>"

definition production_agent :: main_agent where
  "production_agent =
     \<lparr>model = ''openai/gpt-oss-20b'',
      tool_registry = Some (ToolRegistry_tools echo_handler failing_handler echo_handler),
      conversation_history = [], client = client_B\<rparr>"

section \<open>Facts about the loops\<close>

declare while_loop.simps [simp del]

lemma parse_arguments_ok:
  "\<not> loads_raises lib tc \<Longrightarrow> parse_arguments lib (tc_arguments tc) = Inr (arguments_of lib tc)"
  by (simp add: loads_raises_def parse_arguments_def arguments_of_def split: loads_result.splits)

lemma tool_calls_loop_step:
  "raises_nothing lib registry tc \<Longrightarrow>
   tool_calls_loop lib (Some registry) (tc # rest) messages log =
     tool_calls_loop lib (Some registry) rest
       (messages @ [tool_message_of lib registry tc]) (log @ [entry_of lib registry tc])"
  by (auto simp: raises_nothing_def dumps_raises_def parse_arguments_ok entry_of_def
        tool_message_of_def Let_def split: sum.splits)

lemma tool_calls_loop_append:
  "list_all (raises_nothing lib registry) before \<Longrightarrow>
   tool_calls_loop lib (Some registry) (before @ rest) messages log =
     tool_calls_loop lib (Some registry) rest
       (messages @ map (tool_message_of lib registry) before)
       (log @ map (entry_of lib registry) before)"
  by (induction before arbitrary: messages log)
     (simp_all add: tool_calls_loop_step del: tool_calls_loop.simps(2))

lemma tool_calls_loop_eq:
  "list_all (raises_nothing lib registry) tcs \<Longrightarrow>
   tool_calls_loop lib (Some registry) tcs messages log =
     Completed (messages @ map (tool_message_of lib registry) tcs)
               (log @ map (entry_of lib registry) tcs)"
  using tool_calls_loop_append [of lib registry tcs "[]" messages log] by simp



lemma while_loop_exit:
  "\<not> iteration < max_iterations \<Longrightarrow>
   while_loop lib self tls iteration messages log =
     \<lparr>answer = Some ''Could not complete analysis within iteration limit'',
      chart_data = None, execution_log = log, success = False, iterations = max_iterations\<rparr>"
  by (subst while_loop.simps) simp

lemma while_loop_enter:
  "iteration < max_iterations \<Longrightarrow>
   while_loop lib self tls iteration messages log =
     (case loop_body lib self tls (iteration + 1) messages log of
        Return r \<Rightarrow> r
      | Continue messages' log' \<Rightarrow> while_loop lib self tls (iteration + 1) messages' log')"
  by (subst while_loop.simps) simp

lemma loop_body_failed:
  "client self iteration (model self) tls messages = Inl e \<Longrightarrow>
   loop_body lib self tls iteration messages log =
     Return \<lparr>answer = Some (''Error occurred during processing: '' @ e), chart_data = None,
             execution_log = log, success = False, iterations = iteration\<rparr>"
  by (simp add: loop_body_def failed_def)

lemma loop_body_done:
  "client self iteration (model self) tls messages = Inr r \<Longrightarrow> \<not> has_tool_calls r \<Longrightarrow>
   loop_body lib self tls iteration messages log =
     Return \<lparr>answer = content r, chart_data = Some (chart_scan log JNull),
             execution_log = log, success = True, iterations = iteration\<rparr>"
  by (simp add: loop_body_def)

lemma loop_body_tools:
  "client self iteration (model self) tls messages = Inr r \<Longrightarrow> has_tool_calls r \<Longrightarrow>
   tool_registry self = Some registry \<Longrightarrow>
   list_all (raises_nothing lib registry) (requested_calls r) \<Longrightarrow>
   loop_body lib self tls iteration messages log =
     Continue (messages @ AssistantMsg r # map (tool_message_of lib registry) (requested_calls r))
              (log @ map (entry_of lib registry) (requested_calls r))"
  by (simp add: loop_body_def tool_calls_loop_eq)


lemma loop_body_return:
  "loop_body lib self tls iteration messages log = Return r \<Longrightarrow>
   iterations r = iteration \<and> (chart_data r = None) = (\<not> success r)"
  by (auto simp: loop_body_def failed_def Let_def
        split: sum.splits if_splits calls_outcome.splits)


lemma find_append_case:
  "List.find P (xs @ ys) = (case List.find P xs of None \<Rightarrow> List.find P ys | Some x \<Rightarrow> Some x)"
  by (induction xs) simp_all

lemma chart_scan_find:
  "chart_scan log chart =
     (case List.find (\<lambda>e. le_tool e = ''create_chart'' \<and> tr_success (le_result e)) (rev log) of
        None \<Rightarrow> chart
      | Some e \<Rightarrow> get_result (le_result e))"
proof (induction log arbitrary: chart)
  case Nil
  then show ?case by simp
next
  case (Cons e rest)
  show ?case
    by (auto simp: Cons.IH find_append_case split: option.splits)
qed

lemma chart_key_iff_success:
  "(chart_data (while_loop lib self tls iteration messages log) = None)
     = (\<not> success (while_loop lib self tls iteration messages log))"
proof (induction lib self tls iteration messages log rule: while_loop.induct)
  case (1 lib self tls iteration messages log)
  show ?case
  proof (cases "iteration < max_iterations")
    case False
    then show ?thesis by (simp add: while_loop_exit)
  next
    case True
    show ?thesis
    proof (cases "loop_body lib self tls (iteration + 1) messages log")
      case (Return r)
      then have "(chart_data r = None) = (\<not> success r)"
        using loop_body_return by blast
      moreover have "while_loop lib self tls iteration messages log = r"
        using Return by (simp add: while_loop_enter [OF True])
      ultimately show ?thesis by simp
    next
      case (Continue m l)
      have "while_loop lib self tls iteration messages log
              = while_loop lib self tls (iteration + 1) m l"
        using Continue by (simp add: while_loop_enter [OF True])
      with "1.IH" [OF True Continue] show ?thesis by simp
    qed
  qed
qed



lemma execute_tool_success_result:
  "tr_success (execute_tool lib registry name args) \<Longrightarrow>
   tr_result (execute_tool lib registry name args)
     = Some (get_result (execute_tool lib registry name args))"
  by (auto simp: execute_tool_def get_result_def split: option.splits sum.splits)

section \<open>Facts about the schema adapter\<close>

lemma param_schema_of_suffix:
  "param_schema_of p d = \<lparr>ps_type = ''string'', ps_description = d @ json_suffix p\<rparr>"
  by (simp add: param_schema_of_def json_suffix_def)

lemma update_fresh:
  "k \<notin> fst ` set al \<Longrightarrow> AList.update k v al = al @ [(k, v)]"
  by (induction al) auto

lemma parameters_loop_distinct:
  "distinct (map fst params) \<Longrightarrow> fst ` set properties \<inter> fst ` set params = {} \<Longrightarrow>
   parameters_loop params properties required =
     (properties @ map declared_property params, required @ map fst params)"
proof (induction params arbitrary: properties required)
  case Nil
  then show ?case by simp
next
  case (Cons pd rest)
  obtain p d where pd: "pd = (p, d)" by (cases pd)
  have fresh: "p \<notin> fst ` set properties" using Cons.prems pd by auto
  have disj: "fst ` set (properties @ [(p, param_schema_of p d)]) \<inter> fst ` set rest = {}"
    using Cons.prems pd by auto
  have dist: "distinct (map fst rest)" using Cons.prems by simp
  show ?case
    using Cons.IH [OF dist disj]
    by (simp add: pd update_fresh [OF fresh] declared_property_def param_schema_of_suffix)
qed

lemma tools_loop_well_formed:
  "list_all well_formed_entry tls \<Longrightarrow>
   \<exists>gts. tools_loop tls acc = Inr (acc @ gts) \<and> list_all2 emitted_for tls gts"
proof (induction tls arbitrary: acc)
  case Nil
  then show ?case by simp
next
  case (Cons entry rest)
  obtain name info where entry: "entry = (name, info)" by (cases entry)
  from Cons.prems entry obtain params description where
    p: "ti_parameters info = Some (Mapping params)" and d: "ti_description info = Some description"
    and dist: "distinct (map fst params)"
    by (auto simp: well_formed_entry_def split: option.splits parameters_value.splits)
  have pl: "parameters_loop params [] [] = (map declared_property params, map fst params)"
    using parameters_loop_distinct [OF dist, of "[]" "[]"] by simp
  from Cons.prems have "list_all well_formed_entry rest" by simp
  from Cons.IH [OF this, of "acc @ [declared_schema name description params]"]
  obtain gts where
    g: "tools_loop rest (acc @ [declared_schema name description params])
          = Inr ((acc @ [declared_schema name description params]) @ gts)"
    and r: "list_all2 emitted_for rest gts"
    by blast
  have "tools_loop (entry # rest) acc = Inr (acc @ declared_schema name description params # gts)"
    using g by (simp add: entry p d pl declared_schema_def)
  moreover have "list_all2 emitted_for (entry # rest) (declared_schema name description params # gts)"
    using r by (simp add: entry emitted_for_def p d)
  ultimately show ?case by blast
qed

lemma tools_loop_entry_error:
  "entry_error info = Some e \<Longrightarrow> tools_loop ((name, info) # rest) acc = Inl e"
  by (auto simp: entry_error_def split: option.splits parameters_value.splits prod.splits)

lemma tools_loop_entry_ok:
  "entry_error info = None \<Longrightarrow> \<exists>g. tools_loop ((name, info) # rest) acc = tools_loop rest (acc @ [g])"
  by (auto simp: entry_error_def split: option.splits parameters_value.splits prod.splits)

lemma tools_loop_error_iff:
  "(tools_loop tls acc = Inl e)
     = (\<exists>before name info after. tls = before @ (name, info) # after
          \<and> (\<forall>entry \<in> set before. entry_error (snd entry) = None)
          \<and> entry_error info = Some e)"
proof (induction tls arbitrary: acc)
  case Nil
  then show ?case by simp
next
  case (Cons entry rest)
  obtain name info where entry: "entry = (name, info)" by (cases entry)
  show ?case
  proof (cases "entry_error info")
    case (Some e0)
    have l: "tools_loop (entry # rest) acc = Inl e0"
      unfolding entry by (rule tools_loop_entry_error [OF Some])
    have "(\<exists>before name' info' after. entry # rest = before @ (name', info') # after
          \<and> (\<forall>x \<in> set before. entry_error (snd x) = None)
          \<and> entry_error info' = Some e) = (e = e0)"
    proof
      assume "\<exists>before name' info' after. entry # rest = before @ (name', info') # after
          \<and> (\<forall>x \<in> set before. entry_error (snd x) = None)
          \<and> entry_error info' = Some e"
      then obtain before name' info' after where
        s: "entry # rest = before @ (name', info') # after"
        and ok: "\<forall>x \<in> set before. entry_error (snd x) = None"
        and er: "entry_error info' = Some e" by blast
      show "e = e0"
      proof (cases before)
        case Nil
        with s entry have "info' = info" by simp
        with er Some show ?thesis by simp
      next
        case (Cons b bs)
        with s have "b = entry" by simp
        with ok Cons entry have "entry_error info = None" by simp
        with Some show ?thesis by simp
      qed
    next
      assume "e = e0"
      then have "entry # rest = [] @ (name, info) # rest
          \<and> (\<forall>x \<in> set []. entry_error (snd x) = None)
          \<and> entry_error info = Some e" using entry Some by simp
      then show "\<exists>before name' info' after. entry # rest = before @ (name', info') # after
          \<and> (\<forall>x \<in> set before. entry_error (snd x) = None)
          \<and> entry_error info' = Some e" by blast
    qed
    with l show ?thesis by auto
  next
    case None
    from tools_loop_entry_ok [OF None, of name rest acc] obtain g where
      l: "tools_loop (entry # rest) acc = tools_loop rest (acc @ [g])"
      unfolding entry by blast
    have "(\<exists>before name' info' after. entry # rest = before @ (name', info') # after
          \<and> (\<forall>x \<in> set before. entry_error (snd x) = None)
          \<and> entry_error info' = Some e)
        = (\<exists>before name' info' after. rest = before @ (name', info') # after
          \<and> (\<forall>x \<in> set before. entry_error (snd x) = None)
          \<and> entry_error info' = Some e)"
    proof
      assume "\<exists>before name' info' after. entry # rest = before @ (name', info') # after
          \<and> (\<forall>x \<in> set before. entry_error (snd x) = None)
          \<and> entry_error info' = Some e"
      then obtain before name' info' after where
        s: "entry # rest = before @ (name', info') # after"
        and ok: "\<forall>x \<in> set before. entry_error (snd x) = None"
        and er: "entry_error info' = Some e" by blast
      show "\<exists>before name' info' after. rest = before @ (name', info') # after
          \<and> (\<forall>x \<in> set before. entry_error (snd x) = None)
          \<and> entry_error info' = Some e"
      proof (cases before)
        case Nil
        with s entry have "info' = info" by simp
        with er None show ?thesis by simp
      next
        case (Cons b bs)
        with s have "rest = bs @ (name', info') # after" by simp
        moreover from ok Cons have "\<forall>x \<in> set bs. entry_error (snd x) = None" by simp
        ultimately show ?thesis using er by blast
      qed
    next
      assume "\<exists>before name' info' after. rest = before @ (name', info') # after
          \<and> (\<forall>x \<in> set before. entry_error (snd x) = None)
          \<and> entry_error info' = Some e"
      then obtain before name' info' after where
        s: "rest = before @ (name', info') # after"
        and ok: "\<forall>x \<in> set before. entry_error (snd x) = None"
        and er: "entry_error info' = Some e" by blast
      have "entry # rest = (entry # before) @ (name', info') # after" using s by simp
      moreover have "\<forall>x \<in> set (entry # before). entry_error (snd x) = None"
        using ok None entry by simp
      ultimately show "\<exists>before name' info' after. entry # rest = before @ (name', info') # after
          \<and> (\<forall>x \<in> set before. entry_error (snd x) = None)
          \<and> entry_error info' = Some e" using er by blast
    qed
    with l Cons.IH [of "acc @ [g]"] show ?thesis by simp
  qed
qed

section \<open>Facts about the concrete inputs\<close>

lemma deep_brackets_neq:
  "length s \<noteq> 1000 \<Longrightarrow> s \<noteq> deep_brackets"
  by (auto simp: deep_brackets_def)

lemma lib0_loads_empty:
  "json_loads lib0 ''{}'' = Parsed (JObj [])"
  by (simp add: lib0_def)

lemma lib0_loads_actuals:
  "json_loads lib0 args_actuals = Parsed (JObj [(''csv_name'', JStr ''actuals.csv'')])"
  by (simp add: lib0_def) (simp add: args_actuals_def)

lemma lib0_loads_bad:
  "json_loads lib0 ''not valid json {{'' = JSONDecodeError"
  by (simp add: lib0_def deep_brackets_neq) (simp add: args_actuals_def)


lemma lib0_dumps_ok:
  "tr_success r \<Longrightarrow> tr_result r = Some (JObj kvs) \<Longrightarrow> json_dumps lib0 r = Inr ''ok''"
  by (simp add: lib0_def)

lemma echo_on_registry0:
  "name = ''explore_csv'' \<or> name = ''create_chart'' \<Longrightarrow>
   execute_tool lib registry0 name (JObj kvs) =
     \<lparr>tr_success = True, tr_result = Some (JObj kvs),
      tr_error = None, tr_tool = None, tr_parameters = None\<rparr>"
  by (auto simp: execute_tool_def registry0_def call_function_def echo_handler_def)

lemma entry_explore:
  "entry_of lib0 registry0 tc_explore =
     \<lparr>le_tool = ''explore_csv'',
      le_arguments = JObj [(''csv_name'', JStr ''actuals.csv'')],
      le_result = \<lparr>tr_success = True,
                   tr_result = Some (JObj [(''csv_name'', JStr ''actuals.csv'')]),
                   tr_error = None, tr_tool = None, tr_parameters = None\<rparr>\<rparr>"
  by (simp add: entry_of_def arguments_of_def tc_explore_def lib0_loads_actuals echo_on_registry0)

lemma entry_chart:
  "entry_of lib0 registry0 tc_chart =
     \<lparr>le_tool = ''create_chart'', le_arguments = JObj [],
      le_result = \<lparr>tr_success = True, tr_result = Some (JObj []),
                   tr_error = None, tr_tool = None, tr_parameters = None\<rparr>\<rparr>"
  by (simp add: entry_of_def arguments_of_def tc_chart_def lib0_loads_empty echo_on_registry0)

lemma entry_chart2:
  "entry_of lib0 registry0 tc_chart2 =
     \<lparr>le_tool = ''create_chart'',
      le_arguments = JObj [(''csv_name'', JStr ''actuals.csv'')],
      le_result = \<lparr>tr_success = True,
                   tr_result = Some (JObj [(''csv_name'', JStr ''actuals.csv'')]),
                   tr_error = None, tr_tool = None, tr_parameters = None\<rparr>\<rparr>"
  by (simp add: entry_of_def arguments_of_def tc_chart2_def lib0_loads_actuals echo_on_registry0)

lemma entry_bad:
  "entry_of lib0 registry0 tc_bad =
     \<lparr>le_tool = ''explore_csv'', le_arguments = JObj [],
      le_result = \<lparr>tr_success = True, tr_result = Some (JObj []),
                   tr_error = None, tr_tool = None, tr_parameters = None\<rparr>\<rparr>"
  by (simp add: entry_of_def arguments_of_def tc_bad_def lib0_loads_bad echo_on_registry0)


lemma message_chart:
  "tool_message_of lib0 registry0 tc_chart = ToolMsg ''call_c1'' ''create_chart'' ''ok''"
  by (simp add: tool_message_of_def arguments_of_def tc_chart_def lib0_loads_empty
        echo_on_registry0 lib0_dumps_ok)

lemma message_chart2:
  "tool_message_of lib0 registry0 tc_chart2 = ToolMsg ''call_c2'' ''create_chart'' ''ok''"
  by (simp add: tool_message_of_def arguments_of_def tc_chart2_def lib0_loads_actuals
        echo_on_registry0 lib0_dumps_ok)


lemma raises_nothing_explore:
  "raises_nothing lib0 registry0 tc_explore"
  by (simp add: raises_nothing_def loads_raises_def dumps_raises_def arguments_of_def
        tc_explore_def lib0_loads_actuals echo_on_registry0 lib0_dumps_ok)

lemma raises_nothing_chart:
  "raises_nothing lib0 registry0 tc_chart"
  by (simp add: raises_nothing_def loads_raises_def dumps_raises_def arguments_of_def
        tc_chart_def lib0_loads_empty echo_on_registry0 lib0_dumps_ok)

lemma raises_nothing_chart2:
  "raises_nothing lib0 registry0 tc_chart2"
  by (simp add: raises_nothing_def loads_raises_def dumps_raises_def arguments_of_def
        tc_chart2_def lib0_loads_actuals echo_on_registry0 lib0_dumps_ok)


lemma agent_of_schema:
  "\<exists>tls. get_groq_tools (agent_of c) = Inr tls"
  by (simp add: get_groq_tools_def agent_of_def registry0_def)

section \<open>The orchestration loop\<close>






text \<open>
  C3. When the model call of iteration \<open>iteration + 1\<close> raises, the loop returns at once:
  \<open>success = False\<close>, \<open>iterations = iteration + 1\<close>, the log as it was at the head of
  the loop, and the answer \<^verbatim>\<open>Error occurred during processing: \<close> followed by the
  exception's text. When the first model call raises, the run returns \<open>iterations = 1\<close>
  and an empty log.
\<close>

theorem model_call_failure:
  "(iteration < max_iterations
      \<and> client self (iteration + 1) (model self) tls messages = Inl e
    \<longrightarrow> while_loop lib self tls iteration messages log =
          \<lparr>answer = Some (''Error occurred during processing: '' @ e),
           chart_data = None, execution_log = log, success = False,
           iterations = iteration + 1\<rparr>)
   \<and> (get_groq_tools self = Inr tls
      \<and> client self 1 (model self) tls [SystemMsg system_prompt, UserMsg user_query] = Inl e
    \<longrightarrow> process_query lib system_prompt self user_query =
          Inr \<lparr>answer = Some (''Error occurred during processing: '' @ e),
               chart_data = None, execution_log = [], success = False, iterations = 1\<rparr>)"
proof -
  have a: "while_loop lib self tls n ms lg =
          \<lparr>answer = Some (''Error occurred during processing: '' @ e),
           chart_data = None, execution_log = lg, success = False,
           iterations = n + 1\<rparr>"
    if "n < max_iterations" and "client self (n + 1) (model self) tls ms = Inl e" for n ms lg
    using that by (simp add: while_loop_enter loop_body_failed)
  have "0 < max_iterations" by (simp add: max_iterations_def)
  from a [OF this, of "[SystemMsg system_prompt, UserMsg user_query]" "[]"] a [of iteration messages log]
  show ?thesis by (simp add: process_query_def)
qed

theorem model_call_failure_witness:
  "process_query lib0 ''prompt'' (agent_of client_B) ''What was the revenue?'' =
     Inr \<lparr>answer = Some ''Error occurred during processing: API connection timeout'',
          chart_data = None, execution_log = [], success = False, iterations = 1\<rparr>"
proof -
  obtain tls where t: "get_groq_tools (agent_of client_B) = Inr tls"
    using agent_of_schema by blast
  have c: "client (agent_of client_B) 1 (model (agent_of client_B)) tls
             [SystemMsg ''prompt'', UserMsg ''What was the revenue?''] = Inl ''API connection timeout''"
    by (simp add: agent_of_def client_B_def)
  from model_call_failure [of 0 "agent_of client_B" tls "[]" "''API connection timeout''" lib0 "[]"
         "''prompt''" "''What was the revenue?''"] t c
  show ?thesis by simp
qed

text \<open>
  C4. When the response of iteration \<open>iteration + 1\<close> carries no tool calls
  (\<^verbatim>\<open>tool_calls\<close> is \<^verbatim>\<open>None\<close> or the empty list), the loop returns \<open>success = True\<close>,
  the response's content as the answer, the log, the iteration's number, and under
  \<open>chart_data\<close> the result of the latest log entry whose tool is \<^verbatim>\<open>create_chart\<close> and
  whose result is successful, \<^verbatim>\<open>None\<close> when there is none. A successful result of the
  registry always has the key \<^verbatim>\<open>result\<close>, so the value taken is the handler's.
\<close>

theorem final_answer:
  "(iteration < max_iterations
      \<and> client self (iteration + 1) (model self) tls messages = Inr r
      \<and> (tool_calls r = None \<or> tool_calls r = Some [])
    \<longrightarrow> while_loop lib self tls iteration messages log =
          \<lparr>answer = content r,
           chart_data = Some (latest_successful_chart log),
           execution_log = log, success = True, iterations = iteration + 1\<rparr>)
   \<and> (tr_success (execute_tool lib registry name args)
    \<longrightarrow> tr_result (execute_tool lib registry name args)
          = Some (get_result (execute_tool lib registry name args)))"
proof -
  have "while_loop lib self tls iteration messages log =
          \<lparr>answer = content r,
           chart_data = Some (latest_successful_chart log),
           execution_log = log, success = True, iterations = iteration + 1\<rparr>"
    if lt: "iteration < max_iterations"
      and c: "client self (iteration + 1) (model self) tls messages = Inr r"
      and t: "tool_calls r = None \<or> tool_calls r = Some []"
  proof -
    from t have "\<not> has_tool_calls r"
      by (auto simp: has_tool_calls_def requested_calls_def)
    from loop_body_done [OF c this, of lib log] show ?thesis
      by (simp add: while_loop_enter [OF lt] chart_scan_find latest_successful_chart_def)
  qed
  then show ?thesis using execute_tool_success_result by blast
qed

theorem final_answer_witness:
  "process_query lib0 ''prompt'' (agent_of client_two_charts) ''Show the trend.'' =
     Inr \<lparr>answer = Some ''Here is the chart.'',
          chart_data = Some (JObj [(''csv_name'', JStr ''actuals.csv'')]),
          execution_log =
            [\<lparr>le_tool = ''create_chart'', le_arguments = JObj [],
              le_result = \<lparr>tr_success = True, tr_result = Some (JObj []),
                           tr_error = None, tr_tool = None, tr_parameters = None\<rparr>\<rparr>,
             \<lparr>le_tool = ''create_chart'',
              le_arguments = JObj [(''csv_name'', JStr ''actuals.csv'')],
              le_result = \<lparr>tr_success = True,
                           tr_result = Some (JObj [(''csv_name'', JStr ''actuals.csv'')]),
                           tr_error = None, tr_tool = None, tr_parameters = None\<rparr>\<rparr>,
             \<lparr>le_tool = ''explore_csv'',
              le_arguments = JObj [(''csv_name'', JStr ''actuals.csv'')],
              le_result = \<lparr>tr_success = True,
                           tr_result = Some (JObj [(''csv_name'', JStr ''actuals.csv'')]),
                           tr_error = None, tr_tool = None, tr_parameters = None\<rparr>\<rparr>],
          success = True, iterations = 3\<rparr>"
proof -
  let ?self = "agent_of client_two_charts"
  let ?m0 = "[SystemMsg ''prompt'', UserMsg ''Show the trend.'']"
  obtain tls where t: "get_groq_tools ?self = Inr tls"
    using agent_of_schema by blast
  have reg: "tool_registry ?self = Some registry0" by (simp add: agent_of_def)
  let ?r1 = "\<lparr>content = None, tool_calls = Some [tc_chart]\<rparr>"
  let ?r2 = "\<lparr>content = None, tool_calls = Some [tc_chart2, tc_explore]\<rparr>"
  let ?r3 = "\<lparr>content = Some ''Here is the chart.'', tool_calls = Some []\<rparr>"
  let ?m1 = "?m0 @ AssistantMsg ?r1 # map (tool_message_of lib0 registry0) [tc_chart]"
  let ?l1 = "[entry_of lib0 registry0 tc_chart]"
  let ?m2 = "?m1 @ AssistantMsg ?r2 # map (tool_message_of lib0 registry0) [tc_chart2, tc_explore]"
  let ?l2 = "?l1 @ map (entry_of lib0 registry0) [tc_chart2, tc_explore]"
  have b1: "loop_body lib0 ?self tls (0 + 1) ?m0 [] = Continue ?m1 ?l1"
    using loop_body_tools [of ?self "0 + 1" tls ?m0 ?r1 registry0 lib0 "[]"]
    by (simp add: agent_of_def client_two_charts_def has_tool_calls_def requested_calls_def
          raises_nothing_chart)
  have b2: "loop_body lib0 ?self tls (1 + 1) ?m1 ?l1 = Continue ?m2 ?l2"
    using loop_body_tools [of ?self "1 + 1" tls ?m1 ?r2 registry0 lib0 ?l1]
    by (simp add: agent_of_def client_two_charts_def has_tool_calls_def requested_calls_def
          raises_nothing_chart2 raises_nothing_explore)
  have w1: "while_loop lib0 ?self tls 0 ?m0 [] = while_loop lib0 ?self tls 1 ?m1 ?l1"
    using b1 by (subst while_loop_enter) (simp_all add: max_iterations_def)
  have w2: "while_loop lib0 ?self tls 1 ?m1 ?l1 = while_loop lib0 ?self tls 2 ?m2 ?l2"
    using b2 by (subst while_loop_enter) (simp_all add: max_iterations_def numeral_2_eq_2)
  have c3: "client ?self (2 + 1) (model ?self) tls ?m2 = Inr ?r3"
    by (simp add: agent_of_def client_two_charts_def)
  have lt: "2 < max_iterations" by (simp add: max_iterations_def)
  from final_answer [of 2 ?self tls ?m2 ?r3 lib0 ?l2] lt c3
  have w3: "while_loop lib0 ?self tls 2 ?m2 ?l2 =
          \<lparr>answer = content ?r3,
           chart_data = Some (latest_successful_chart ?l2),
           execution_log = ?l2, success = True, iterations = 2 + 1\<rparr>"
    by simp
  have ch: "latest_successful_chart ?l2 = JObj [(''csv_name'', JStr ''actuals.csv'')]"
    by (simp add: latest_successful_chart_def entry_chart entry_chart2 entry_explore get_result_def)
  show ?thesis
    using t w1 w2 w3 ch by (simp add: process_query_def entry_chart entry_chart2 entry_explore)
qed




text \<open>
  C10. When the model call raises, and when the bound is reached, the returned dictionary
  has no \<open>chart_data\<close> key, while its log is the log held at that point, whatever chart
  results it records. Over all runs the key is missing exactly when \<open>success\<close> is false.
\<close>

theorem chart_only_when_done:
  "(iteration < max_iterations
      \<and> client self (iteration + 1) (model self) tls messages = Inl e
    \<longrightarrow> chart_data (while_loop lib self tls iteration messages log) = None
        \<and> execution_log (while_loop lib self tls iteration messages log) = log)
   \<and> (\<not> iteration < max_iterations
    \<longrightarrow> chart_data (while_loop lib self tls iteration messages log) = None
        \<and> execution_log (while_loop lib self tls iteration messages log) = log)
   \<and> ((chart_data (while_loop lib self tls iteration messages log) = None)
        = (\<not> success (while_loop lib self tls iteration messages log)))
   \<and> (get_groq_tools self = Inr tls
    \<longrightarrow> (\<exists>r. process_query lib system_prompt self user_query = Inr r
             \<and> ((chart_data r = None) = (\<not> success r))))"
proof -
  have a: "chart_data (while_loop lib self tls iteration messages log) = None
        \<and> execution_log (while_loop lib self tls iteration messages log) = log"
    if "iteration < max_iterations"
      and "client self (iteration + 1) (model self) tls messages = Inl e"
    using that by (simp add: while_loop_enter loop_body_failed)
  have b: "chart_data (while_loop lib self tls iteration messages log) = None
        \<and> execution_log (while_loop lib self tls iteration messages log) = log"
    if "\<not> iteration < max_iterations"
    using that by (simp add: while_loop_exit)
  have d: "\<exists>r. process_query lib system_prompt self user_query = Inr r
             \<and> ((chart_data r = None) = (\<not> success r))"
    if "get_groq_tools self = Inr tls"
    using that chart_key_iff_success [of lib self tls 0 "[SystemMsg system_prompt, UserMsg user_query]" "[]"]
    by (simp add: process_query_def)
  from a b d chart_key_iff_success [of lib self tls iteration messages log]
  show ?thesis by blast
qed

theorem chart_only_when_done_witness:
  "process_query lib0 ''prompt'' (agent_of client_chart_then_error) ''Show the trend.'' =
     Inr \<lparr>answer = Some ''Error occurred during processing: rate limit exceeded'',
          chart_data = None,
          execution_log =
            [\<lparr>le_tool = ''create_chart'', le_arguments = JObj [],
              le_result = \<lparr>tr_success = True, tr_result = Some (JObj []),
                           tr_error = None, tr_tool = None, tr_parameters = None\<rparr>\<rparr>],
          success = False, iterations = 2\<rparr>"
proof -
  let ?self = "agent_of client_chart_then_error"
  let ?m0 = "[SystemMsg ''prompt'', UserMsg ''Show the trend.'']"
  let ?r1 = "\<lparr>content = None, tool_calls = Some [tc_chart]\<rparr>"
  let ?m1 = "?m0 @ AssistantMsg ?r1 # map (tool_message_of lib0 registry0) [tc_chart]"
  let ?l1 = "[entry_of lib0 registry0 tc_chart]"
  obtain tls where t: "get_groq_tools ?self = Inr tls"
    using agent_of_schema by blast
  have b1: "loop_body lib0 ?self tls (0 + 1) ?m0 [] = Continue ?m1 ?l1"
    using loop_body_tools [of ?self "0 + 1" tls ?m0 ?r1 registry0 lib0 "[]"]
    by (simp add: agent_of_def client_chart_then_error_def has_tool_calls_def requested_calls_def
          raises_nothing_chart)
  have w1: "while_loop lib0 ?self tls 0 ?m0 [] = while_loop lib0 ?self tls 1 ?m1 ?l1"
    using b1 by (subst while_loop_enter) (simp_all add: max_iterations_def)
  have c2: "client ?self (1 + 1) (model ?self) tls ?m1 = Inl ''rate limit exceeded''"
    by (simp add: agent_of_def client_chart_then_error_def)
  have b2: "loop_body lib0 ?self tls (1 + 1) ?m1 ?l1 =
              Return \<lparr>answer = Some (''Error occurred during processing: '' @ ''rate limit exceeded''),
                      chart_data = None, execution_log = ?l1, success = False, iterations = 1 + 1\<rparr>"
    by (rule loop_body_failed [OF c2])
  have w2: "while_loop lib0 ?self tls 1 ?m1 ?l1 =
              \<lparr>answer = Some (''Error occurred during processing: '' @ ''rate limit exceeded''),
               chart_data = None, execution_log = ?l1, success = False, iterations = 1 + 1\<rparr>"
    using b2 by (subst while_loop_enter) (simp_all add: max_iterations_def)
  have lt: "1 < max_iterations" by (simp add: max_iterations_def)
  from chart_only_when_done [of 1 ?self tls ?m1 "''rate limit exceeded''" lib0 ?l1] lt c2
  have "chart_data (while_loop lib0 ?self tls 1 ?m1 ?l1) = None" by simp
  with t w1 w2 show ?thesis by (simp add: process_query_def entry_chart)
qed

section \<open>The registry's execute contract\<close>

text \<open>
  C5. For a registered tool, \<open>execute_tool\<close> applies the handler to the arguments. When the
  handler raises, the result is the dictionary with \<open>success = False\<close>, the exception's
  message under \<open>error\<close>, the tool's name under \<open>tool\<close> and the arguments under
  \<open>parameters\<close>; when it returns, the result is the dictionary with \<open>success = True\<close> and
  the returned value under \<open>result\<close>, and no other key. \<open>execute_tool\<close> returns a
  dictionary in both cases: the exception does not leave it.
\<close>

theorem execute_tool_registered:
  assumes "map_of tls tool_name = Some info" and "ti_function info = Some f"
  shows "(\<forall>msg. f parameters = Inl msg \<longrightarrow>
            execute_tool lib tls tool_name parameters =
              \<lparr>tr_success = False, tr_result = None, tr_error = Some msg,
               tr_tool = Some tool_name, tr_parameters = Some parameters\<rparr>)
       \<and> (\<forall>v. f parameters = Inr v \<longrightarrow>
            execute_tool lib tls tool_name parameters =
              \<lparr>tr_success = True, tr_result = Some v, tr_error = None,
               tr_tool = None, tr_parameters = None\<rparr>)"
  using assms by (simp add: execute_tool_def call_function_def)

theorem execute_tool_registered_witness:
  "execute_tool lib0 registry0 ''extract_csv_data'' (JObj [(''csv_name'', JStr ''nonexistent.csv'')]) =
     \<lparr>tr_success = False, tr_result = None,
      tr_error = Some ''CSV file not found: nonexistent.csv'',
      tr_tool = Some ''extract_csv_data'',
      tr_parameters = Some (JObj [(''csv_name'', JStr ''nonexistent.csv'')])\<rparr>
   \<and> execute_tool lib0 registry0 ''explore_csv'' (JObj [(''csv_name'', JStr ''actuals.csv'')]) =
     \<lparr>tr_success = True, tr_result = Some (JObj [(''csv_name'', JStr ''actuals.csv'')]),
      tr_error = None, tr_tool = None, tr_parameters = None\<rparr>"
proof -
  have a: "map_of registry0 ''extract_csv_data'' =
             Some \<lparr>ti_function = Some failing_handler,
                   ti_description = Some ''Extract filtered data from CSV'',
                   ti_parameters = Some (Mapping [(''csv_name'', ''Name of the CSV file''),
                                                  (''filters'', ''Filters to apply as JSON object'')])\<rparr>"
    by (simp add: registry0_def)
  have b: "map_of registry0 ''explore_csv'' =
             Some \<lparr>ti_function = Some echo_handler,
                   ti_description = Some ''Explore CSV file structure and content'',
                   ti_parameters = Some (Mapping [(''csv_name'', ''Name of the CSV file to explore''),
                                                  (''columns'', ''Specific columns to analyze'')])\<rparr>"
    by (simp add: registry0_def)
  show ?thesis
    using execute_tool_registered [OF a, of failing_handler
            "JObj [(''csv_name'', JStr ''nonexistent.csv'')]" lib0]
          execute_tool_registered [OF b, of echo_handler
            "JObj [(''csv_name'', JStr ''actuals.csv'')]" lib0]
    by (simp add: failing_handler_def echo_handler_def)
qed

text \<open>
  C6. For a name that is not a key of the registry, \<open>execute_tool\<close> returns the dictionary
  with \<open>success = False\<close> and the error text
  \<^verbatim>\<open>Tool '<name>' not found. Available tools: [<the registry's names>]\<close>, with no other
  key; it returns this dictionary, it does not raise.
\<close>

theorem execute_tool_not_found:
  assumes "map_of tls tool_name = None"
  shows "execute_tool lib tls tool_name parameters =
           \<lparr>tr_success = False, tr_result = None,
            tr_error = Some (''Tool '' @ sq @ tool_name @ sq @ '' not found. Available tools: [''
                             @ join_comma (map (repr_str lib) (map fst tls)) @ '']''),
            tr_tool = None, tr_parameters = None\<rparr>"
  using assms by (simp add: execute_tool_def str_list_def)

theorem execute_tool_not_found_witness:
  "map_of registry0 ''merge_datasets'' = None
   \<and> execute_tool lib0 registry0 ''merge_datasets'' (JObj []) =
       \<lparr>tr_success = False, tr_result = None,
        tr_error = Some (''Tool '' @ sq @ ''merge_datasets'' @ sq
                         @ '' not found. Available tools: [''
                         @ sq @ ''explore_csv'' @ sq @ '', ''
                         @ sq @ ''extract_csv_data'' @ sq @ '', ''
                         @ sq @ ''create_chart'' @ sq @ '']''),
        tr_tool = None, tr_parameters = None\<rparr>"
proof -
  have a: "map_of registry0 ''merge_datasets'' = None"
    by (simp add: registry0_def)
  show ?thesis
    using a execute_tool_not_found [OF a, of lib0 "JObj []"]
    by (simp add: registry0_def lib0_def)
qed

section \<open>The schema adapter\<close>

text \<open>
  C8. For an agent on a registry whose entries are all well formed, \<open>get_groq_tools\<close>
  returns, in the registry's order, the schema each entry declares: every parameter is a
  property of type \<^verbatim>\<open>string\<close>, the required list is the list of the properties' names,
  and the description of \<^verbatim>\<open>filters\<close>, \<^verbatim>\<open>data\<close>, \<^verbatim>\<open>group_by\<close>, \<^verbatim>\<open>columns\<close> and
  \<^verbatim>\<open>on_columns\<close> has the suffix that asks for JSON. The witness is the registry of
  \<^verbatim>\<open>ToolRegistry.__init__\<close>.
\<close>

theorem get_groq_tools_schema:
  assumes "tool_registry self = Some registry" and "list_all well_formed_entry registry"
  shows "\<exists>gts. get_groq_tools self = Inr gts
           \<and> list_all2 emitted_for registry gts
           \<and> (\<forall>g \<in> set gts.
                 gp_required (gf_parameters (gt_function g))
                   = map fst (gp_properties (gf_parameters (gt_function g)))
                 \<and> (\<forall>ps \<in> set (gp_properties (gf_parameters (gt_function g))).
                       ps_type (snd ps) = ''string''))"
proof -
  from tools_loop_well_formed [OF assms(2), of "[]"] obtain gts where
    g: "get_groq_tools self = Inr gts" and e: "list_all2 emitted_for registry gts"
    by (auto simp: get_groq_tools_def assms(1))
  have "gp_required (gf_parameters (gt_function g))
          = map fst (gp_properties (gf_parameters (gt_function g)))
        \<and> (\<forall>ps \<in> set (gp_properties (gf_parameters (gt_function g))). ps_type (snd ps) = ''string'')"
    if "g \<in> set gts" for g
  proof -
    from that obtain i where i: "i < length gts" and gi: "gts ! i = g"
      by (auto simp: in_set_conv_nth)
    from list_all2_nthD2 [OF e i] gi have "emitted_for (registry ! i) g" by simp
    then obtain name description params where "g = declared_schema name description params"
      by (auto simp: emitted_for_def split: option.splits parameters_value.splits)
    then show ?thesis
      by (auto simp: declared_schema_def declared_property_def comp_def)
  qed
  with g e show ?thesis by blast
qed

theorem get_groq_tools_schema_witness:
  "list_all well_formed_entry (ToolRegistry_tools echo_handler failing_handler echo_handler)
   \<and> (\<exists>gts. get_groq_tools production_agent = Inr gts
          \<and> map (\<lambda>g. gf_name (gt_function g)) gts
              = [''explore_csv'', ''extract_csv_data'', ''create_chart'']
          \<and> map (\<lambda>g. gp_required (gf_parameters (gt_function g))) gts
              = [[''csv_name''], [''csv_name'', ''filters''],
                 [''data'', ''chart_type'', ''x_column'', ''y_column'']]
          \<and> map (\<lambda>g. map (\<lambda>ps. ps_type (snd ps)) (gp_properties (gf_parameters (gt_function g)))) gts
              = [[''string''], [''string'', ''string''],
                 [''string'', ''string'', ''string'', ''string'']]
          \<and> map_of (gp_properties (gf_parameters (gt_function (gts ! 2)))) ''data''
              = Some \<lparr>ps_type = ''string'',
                      ps_description =
                        ''JSON string containing the dataframe data to visualize Provide as JSON string.''\<rparr>)"
proof -
  let ?reg = "ToolRegistry_tools echo_handler failing_handler echo_handler"
  have reg: "tool_registry production_agent = Some ?reg"
    by (simp add: production_agent_def)
  have wf: "list_all well_formed_entry ?reg"
    by (simp add: ToolRegistry_tools_def well_formed_entry_def)
  from get_groq_tools_schema [OF reg wf] obtain gts where
    g: "get_groq_tools production_agent = Inr gts"
    and e: "list_all2 emitted_for ?reg gts"
    by blast
  from e obtain g1 g2 g3 where gts: "gts = [g1, g2, g3]"
    and e1: "emitted_for (?reg ! 0) g1"
    and e2: "emitted_for (?reg ! 1) g2"
    and e3: "emitted_for (?reg ! 2) g3"
    by (auto simp: ToolRegistry_tools_def list_all2_Cons1)
  have n: "map (\<lambda>g. gf_name (gt_function g)) gts
              = [''explore_csv'', ''extract_csv_data'', ''create_chart'']"
    using e1 e2 e3
    by (simp add: gts ToolRegistry_tools_def emitted_for_def declared_schema_def)
  have r: "map (\<lambda>g. gp_required (gf_parameters (gt_function g))) gts
              = [[''csv_name''], [''csv_name'', ''filters''],
                 [''data'', ''chart_type'', ''x_column'', ''y_column'']]"
    using e1 e2 e3
    by (simp add: gts ToolRegistry_tools_def emitted_for_def declared_schema_def)
  have t: "map (\<lambda>g. map (\<lambda>ps. ps_type (snd ps)) (gp_properties (gf_parameters (gt_function g)))) gts
              = [[''string''], [''string'', ''string''],
                 [''string'', ''string'', ''string'', ''string'']]"
    using e1 e2 e3
    by (simp add: gts ToolRegistry_tools_def emitted_for_def declared_schema_def
          declared_property_def)
  have d: "map_of (gp_properties (gf_parameters (gt_function (gts ! 2)))) ''data''
              = Some \<lparr>ps_type = ''string'',
                      ps_description =
                        ''JSON string containing the dataframe data to visualize Provide as JSON string.''\<rparr>"
    using e3
    by (simp add: gts ToolRegistry_tools_def emitted_for_def declared_schema_def
          declared_property_def json_suffix_def)
  from wf g n r t d show ?thesis by simp
qed

text \<open>
  C9, as stated, fails. The constructor stores a registry with an entry that has no
  description and returns the agent; the KeyError is raised later, by \<open>get_groq_tools\<close>
  inside \<open>process_query\<close>. And the adapter fails on registries in which no entry misses a
  key: with the constructor's default \<^verbatim>\<open>None\<close> for the registry, and with an entry whose
  \<^verbatim>\<open>parameters\<close> are \<^verbatim>\<open>None\<close>, it raises AttributeError.
\<close>

theorem schema_error_after_construction:
  "MainAgent_init (Inr client_B) ''openai/gpt-oss-20b'' (Some registry_no_description) =
     Inr (agent_on (Some registry_no_description) client_B)
   \<and> get_groq_tools (agent_on (Some registry_no_description) client_B)
       = Inl (KeyError ''description'')
   \<and> process_query lib0 ''prompt'' (agent_on (Some registry_no_description) client_B)
        ''What was the revenue?''
       = Inl (KeyError ''description'')
   \<and> MainAgent_init (Inr client_B) ''openai/gpt-oss-20b'' None = Inr (agent_on None client_B)
   \<and> get_groq_tools (agent_on None client_B)
       = Inl (AttributeError (sq @ ''NoneType'' @ sq @ '' object has no attribute ''
                               @ sq @ ''tools'' @ sq))
   \<and> get_groq_tools (agent_on (Some registry_parameters_none) client_B)
       = Inl (AttributeError (sq @ ''NoneType'' @ sq @ '' object has no attribute ''
                               @ sq @ ''items'' @ sq))"
  by (simp add: MainAgent_init_def agent_on_def get_groq_tools_def process_query_def
        registry_no_description_def registry_parameters_none_def no_attribute_def)

text \<open>
  C9, amended. The result of \<open>get_groq_tools\<close> depends on the registry only. Without a
  registry it raises AttributeError. On a registry it fails exactly when an entry is
  malformed, and its error is the error of the first malformed entry in the registry's
  order: the KeyError of \<^verbatim>\<open>parameters\<close> when that key is missing, AttributeError when
  the value under it is not a dictionary, the KeyError of \<^verbatim>\<open>description\<close> when the
  parameters are in order and that key is missing. The constructor accepts every
  registry, and none; the error is raised when \<open>process_query\<close> builds the schema, and it
  is the error of \<open>process_query\<close>, whatever the client does.
\<close>

theorem get_groq_tools_errors:
  "(tool_registry self = None
      \<longrightarrow> get_groq_tools self = Inl (AttributeError (no_attribute ''NoneType'' ''tools'')))
   \<and> (\<forall>registry e. tool_registry self = Some registry
        \<longrightarrow> (get_groq_tools self = Inl e)
            = (\<exists>before name info after. registry = before @ (name, info) # after
                 \<and> (\<forall>entry \<in> set before. entry_error (snd entry) = None)
                 \<and> entry_error info = Some e))
   \<and> (\<forall>e. get_groq_tools self = Inl e
        \<longrightarrow> process_query lib system_prompt self user_query = Inl e)
   \<and> (\<forall>other. tool_registry other = tool_registry self
        \<longrightarrow> get_groq_tools other = get_groq_tools self)
   \<and> (\<forall>c mdl registry.
         MainAgent_init (Inr c) mdl registry =
           Inr \<lparr>model = mdl, tool_registry = registry, conversation_history = [], client = c\<rparr>)"
proof -
  have a: "get_groq_tools self = Inl (AttributeError (no_attribute ''NoneType'' ''tools''))"
    if "tool_registry self = None"
    using that by (simp add: get_groq_tools_def)
  have b: "(get_groq_tools self = Inl e)
            = (\<exists>before name info after. registry = before @ (name, info) # after
                 \<and> (\<forall>entry \<in> set before. entry_error (snd entry) = None)
                 \<and> entry_error info = Some e)"
    if "tool_registry self = Some registry" for registry e
    using that tools_loop_error_iff [of registry "[]" e] by (simp add: get_groq_tools_def)
  have c: "process_query lib system_prompt self user_query = Inl e"
    if "get_groq_tools self = Inl e" for e
    using that by (simp add: process_query_def)
  have d: "get_groq_tools other = get_groq_tools self"
    if "tool_registry other = tool_registry self" for other
    using that by (simp add: get_groq_tools_def)
  have e: "MainAgent_init (Inr c) mdl registry =
           Inr \<lparr>model = mdl, tool_registry = registry, conversation_history = [], client = c\<rparr>"
    for c mdl registry
    by (simp add: MainAgent_init_def)
  from a b c d e show ?thesis by blast
qed

theorem get_groq_tools_errors_witness:
  "entry_error (snd (registry_parameters_none ! 0)) = None
   \<and> entry_error (snd (registry_parameters_none ! 1))
       = Some (AttributeError (no_attribute ''NoneType'' ''items''))
   \<and> get_groq_tools (agent_on (Some registry_parameters_none) client_A)
       = Inl (AttributeError (no_attribute ''NoneType'' ''items''))
   \<and> process_query lib0 ''prompt'' (agent_on (Some registry_parameters_none) client_A) ''q''
       = Inl (AttributeError (no_attribute ''NoneType'' ''items''))
   \<and> get_groq_tools (agent_on (Some registry_parameters_none) client_B)
       = get_groq_tools (agent_on (Some registry_parameters_none) client_A)
   \<and> get_groq_tools (agent_on None client_A)
       = Inl (AttributeError (no_attribute ''NoneType'' ''tools''))"
proof -
  let ?a = "agent_on (Some registry_parameters_none) client_A"
  let ?b = "agent_on (Some registry_parameters_none) client_B"
  let ?n = "agent_on None client_A"
  let ?e = "AttributeError (no_attribute ''NoneType'' ''items'')"
  have x0: "entry_error (snd (registry_parameters_none ! 0)) = None"
    by (simp add: registry_parameters_none_def entry_error_def)
  have x1: "entry_error (snd (registry_parameters_none ! 1)) = Some ?e"
    by (simp add: registry_parameters_none_def entry_error_def)
  have split: "\<exists>before name info after. registry_parameters_none = before @ (name, info) # after
                 \<and> (\<forall>entry \<in> set before. entry_error (snd entry) = None)
                 \<and> entry_error info = Some ?e"
  proof (intro exI conjI)
    show "registry_parameters_none =
            [registry_parameters_none ! 0]
              @ (fst (registry_parameters_none ! 1), snd (registry_parameters_none ! 1)) # []"
      by (simp add: registry_parameters_none_def)
    show "\<forall>entry \<in> set [registry_parameters_none ! 0]. entry_error (snd entry) = None"
      using x0 by simp
    show "entry_error (snd (registry_parameters_none ! 1)) = Some ?e" by (rule x1)
  qed
  note th = get_groq_tools_errors [of ?a lib0 "''prompt''" "''q''"]
  have ra: "tool_registry ?a = Some registry_parameters_none" by (simp add: agent_on_def)
  from th ra split have g: "get_groq_tools ?a = Inl ?e" by blast
  with th have p: "process_query lib0 ''prompt'' ?a ''q'' = Inl ?e" by blast
  have "tool_registry ?b = tool_registry ?a" by (simp add: agent_on_def)
  with th have c: "get_groq_tools ?b = get_groq_tools ?a" by blast
  have "tool_registry ?n = None" by (simp add: agent_on_def)
  with get_groq_tools_errors [of ?n lib0 "''prompt''" "''q''"]
  have n: "get_groq_tools ?n = Inl (AttributeError (no_attribute ''NoneType'' ''tools''))" by blast
  from x0 x1 g p c n show ?thesis by simp
qed

end
